theory Spec2Isabelle
  imports Main
begin

section \<open>Python values used by the adapter\<close>

text \<open>
  A Python \<open>str\<close> is a sequence of Unicode code points, so it is modelled as a list of
  code points and not as a list of bytes. \<open>lit\<close> turns an ASCII literal of the source
  into such a list.
\<close>

type_synonym pystr = "nat list"

definition lit :: "string \<Rightarrow> pystr" where
  "lit s = map of_char s"

text \<open>
  \<open>str.isspace\<close> on one code point, as CPython decides it: the ASCII table
  (\<open>\t \n \v \f \r\<close>, the separators 0x1C to 0x1F, the space) and the Unicode white
  space beyond it (0x85, 0xA0, 0x1680, 0x2000 to 0x200A, 0x2028, 0x2029, 0x202F, 0x205F,
  0x3000).
\<close>

definition isspace :: "nat \<Rightarrow> bool" where
  "isspace c \<longleftrightarrow>
     (9 \<le> c \<and> c \<le> 13) \<or> (28 \<le> c \<and> c \<le> 32) \<or> c = 133 \<or> c = 160 \<or> c = 5760 \<or>
     (8192 \<le> c \<and> c \<le> 8202) \<or> c = 8232 \<or> c = 8233 \<or> c = 8239 \<or> c = 8287 \<or> c = 12288"

text \<open>\<open>s.strip()\<close> with no argument: drop the white space at both ends.\<close>

definition strip :: "pystr \<Rightarrow> pystr" where
  "strip s = rev (dropWhile isspace (rev (dropWhile isspace s)))"

text \<open>The decimal text an f-string gives for a non-negative \<open>int\<close>.\<close>

fun dec :: "nat \<Rightarrow> pystr" where
  "dec n = (if n < 10 then [48 + n] else dec (n div 10) @ [48 + n mod 10])"

declare dec.simps [simp del]

text \<open>
  Python floats are carried by the request and never inspected by the code; the type is
  left abstract.
\<close>

typedecl pyfloat

text \<open>
  What \<open>json\<close> parsing returns and what \<open>json=\<close> serialises: \<open>None\<close>, \<open>bool\<close>,
  \<open>int\<close>, \<open>float\<close>, \<open>str\<close>, \<open>list\<close> and \<open>dict\<close>. A \<open>dict\<close> is an association
  list in insertion order; where a key occurs twice the later entry is the one a lookup
  sees, as in a Python \<open>dict\<close> built from a JSON object.
\<close>

datatype json =
    JNull
  | JBool bool
  | JInt int
  | JFloat pyfloat
  | JStr pystr
  | JArr "json list"
  | JObj "(pystr \<times> json) list"

text \<open>
  The exceptions that can travel through the handler. \<open>Exception\<close> is the one the source
  raises itself, with its message; the others are raised by the interpreter or by a
  library: attribute access on a value that lacks the attribute, a missing \<open>dict\<close> key,
  subscripting a value that is no \<open>dict\<close>, a reply body that is no JSON, a failed
  connection, a field that fails its declared type, and FastAPI's \<open>HTTPException\<close> with
  its status code and detail.
\<close>

datatype exn =
    Exception pystr
  | AttributeError
  | KeyError pystr
  | TypeError
  | JSONDecodeError
  | ClientError
  | ValidationError
  | HTTPException nat pystr

text \<open>
  \<open>str(e)\<close>. For \<open>Exception(msg)\<close> it is \<open>msg\<close>. For the exceptions the interpreter
  and the libraries raise, the wording belongs to them and is kept symbolic.
\<close>

datatype detail = Text pystr | MessageOf exn

fun str_of :: "exn \<Rightarrow> detail" where
  "str_of (Exception msg) = Text msg"
| "str_of e = MessageOf e"

text \<open>\<open>d[k]\<close>: \<open>KeyError\<close> on a \<open>dict\<close> without the key, \<open>TypeError\<close> on anything else
  that JSON parsing can return.\<close>

fun getitem :: "json \<Rightarrow> pystr \<Rightarrow> exn + json" where
  "getitem (JObj kvs) k = (case map_of (rev kvs) k of None \<Rightarrow> Inl (KeyError k) | Some v \<Rightarrow> Inr v)"
| "getitem _ k = Inl TypeError"

text \<open>\<open>v.strip()\<close> on a parsed JSON value: only a \<open>str\<close> has the method.\<close>

fun strip_method :: "json \<Rightarrow> exn + pystr" where
  "strip_method (JStr s) = Inr (strip s)"
| "strip_method _ = Inl AttributeError"

text \<open>
  A surrogate code point has no UTF-8 encoding: \<open>s.encode("utf-8")\<close> raises on a string
  that holds one, while \<open>json.loads\<close> and \<open>strip\<close> accept it.
\<close>

definition surrogate :: "nat \<Rightarrow> bool" where
  "surrogate c \<longleftrightarrow> 55296 \<le> c \<and> c \<le> 57343"

definition utf8 :: "pystr \<Rightarrow> bool" where
  "utf8 s \<longleftrightarrow> \<not> list_ex surrogate s"

text \<open>The strings of a JSON value, keys and values, in document order.\<close>

fun json_strings :: "json \<Rightarrow> pystr list" where
  "json_strings (JStr s) = [s]"
| "json_strings (JArr xs) = concat (map json_strings xs)"
| "json_strings (JObj kvs) = concat (map (\<lambda>(k, v). k # json_strings v) kvs)"
| "json_strings _ = []"

text \<open>
  Rendering a JSON value as the UTF-8 body of a response succeeds when every string in it
  can be encoded. Floats play no part here: no response of the handlers holds one.
\<close>

definition renders :: "json \<Rightarrow> bool" where
  "renders j \<longleftrightarrow> list_all utf8 (json_strings j)"

text \<open>An optional field in JSON: \<open>None\<close> is \<open>null\<close>.\<close>

fun json_of_option :: "('a \<Rightarrow> json) \<Rightarrow> 'a option \<Rightarrow> json" where
  "json_of_option f None = JNull"
| "json_of_option f (Some x) = f x"

section \<open>The provider as seen by the client\<close>

text \<open>
  One \<open>session.post\<close>: the URL, the session's headers, the \<open>json=\<close> body and the proxy.
  Its outcome is a failed connection or a reply with a status code and a body;
  \<open>response.json()\<close> on that body either raises or returns the parsed value.
\<close>

record request =
  url :: string
  headers :: "(string \<times> string) list"
  body :: json
  proxy :: "pystr option"

datatype reply_body = Unparsable | Parsed json

datatype outcome = NoReply | Reply nat reply_body

type_synonym provider = "request \<Rightarrow> outcome"

text \<open>
  What the endpoint answers: 200 with the response model as JSON, the status and detail of
  an \<open>HTTPException\<close>, or the server's bare 500 for an exception that no handler caught.
\<close>

datatype 'r http_result = OK 'r | HTTPError nat detail | InternalServerError


text \<open>
  A route declared with \<open>response_model\<close>: what the handler returns is serialised as the
  JSON body of the 200 response, after the handler and its \<open>try\<close> block are left. When the
  body cannot be rendered the exception reaches the server, which answers 500.
\<close>

definition respond :: "('r \<Rightarrow> json) \<Rightarrow> 'r \<Rightarrow> 'r http_result" where
  "respond to_json r = (if renders (to_json r) then OK r else InternalServerError)"

text \<open>\<open>async for result in async_gen: response = result; break\<close> over the items the
  generator yields.\<close>

fun first_item :: "'a list \<Rightarrow> 'a option" where
  "first_item [] = None"
| "first_item (x # _) = Some x"

section \<open>First instance (main.py)\<close>

datatype MessageType = HUMAN | AI | SYSTEM | ASSISTANT

fun MessageType_value :: "MessageType \<Rightarrow> pystr" where
  "MessageType_value HUMAN = lit ''human''"
| "MessageType_value AI = lit ''ai''"
| "MessageType_value SYSTEM = lit ''system''"
| "MessageType_value ASSISTANT = lit ''assistant''"

definition MessageType_members :: "MessageType list" where
  "MessageType_members = [HUMAN, AI, SYSTEM, ASSISTANT]"

text \<open>\<open>MessageType(s)\<close>: the member whose value is \<open>s\<close>, if there is one.\<close>

definition MessageType_of :: "pystr \<Rightarrow> MessageType option" where
  "MessageType_of s = find (\<lambda>m. MessageType_value m = s) MessageType_members"

text \<open>
  A \<open>mode="before"\<close> validator sees the raw input and returns either a member of the
  enumeration or the value it was given.
\<close>

datatype role_input = Member MessageType | Raw json

text \<open>\<open>v == "..."\<close>: a member of a \<open>str\<close> enumeration compares by its value.\<close>

fun eq_str :: "role_input \<Rightarrow> pystr \<Rightarrow> bool" where
  "eq_str (Member m) s = (MessageType_value m = s)"
| "eq_str (Raw (JStr t)) s = (t = s)"
| "eq_str (Raw _) s = False"

definition Message_map_role :: "role_input \<Rightarrow> role_input" where
  "Message_map_role v =
     (if eq_str v (lit ''user'') then Member HUMAN
      else if eq_str v (lit ''assistant'') then Member AI
      else v)"

definition ResponseMessage_map_role :: "role_input \<Rightarrow> role_input" where
  "ResponseMessage_map_role v =
     (if eq_str v (lit ''user'') then Member HUMAN
      else if eq_str v (lit ''assistant'') then Member ASSISTANT
      else if eq_str v (lit ''system'') then Member SYSTEM
      else v)"

text \<open>The declared type \<open>MessageType\<close> of a field, applied to what the validator returned.\<close>

fun as_MessageType :: "role_input \<Rightarrow> exn + MessageType" where
  "as_MessageType (Member m) = Inr m"
| "as_MessageType (Raw (JStr s)) =
     (case MessageType_of s of None \<Rightarrow> Inl ValidationError | Some m \<Rightarrow> Inr m)"
| "as_MessageType (Raw _) = Inl ValidationError"

text \<open>The declared type \<open>MessageType | None\<close>.\<close>

fun as_MessageType_or_None :: "role_input \<Rightarrow> exn + MessageType option" where
  "as_MessageType_or_None (Raw JNull) = Inr None"
| "as_MessageType_or_None v =
     (case as_MessageType v of Inl e \<Rightarrow> Inl e | Inr m \<Rightarrow> Inr (Some m))"

text \<open>The \<open>role\<close> field of \<open>Message\<close> for a role given in the request: the validator, then
  the declared type.\<close>

definition Message_role :: "json \<Rightarrow> exn + MessageType option" where
  "Message_role v = as_MessageType_or_None (Message_map_role (Raw v))"

record Message =
  content :: "pystr option"
  role :: "MessageType option"
  tool_calls :: "json list option"
  function_call :: "(pystr \<times> json) list option"

record ResponseMessage =
  content :: "pystr option"
  role :: MessageType
  tool_calls :: "json list option"
  function_call :: "(pystr \<times> json) list option"

record Choices =
  finish_reason :: "pystr option"
  index :: "int option"
  message :: "ResponseMessage option"

record Usage =
  completion_tokens :: "int option"
  prompt_tokens :: "int option"
  total_tokens :: "int option"
  completion_tokens_details :: "json list option"
  prompt_tokens_details :: "json list option"

record ChatRequest =
  model :: pystr
  messages :: "Message list"
  temperature :: "pyfloat option"

record ChatResponse =
  id' :: "pystr option"
  choices :: "Choices list option"
  created :: "int option"
  model :: "pystr option"
  object :: "pystr option"
  service_tier :: "pystr option"
  system_fingerprint :: "pystr option"
  usage :: "Usage option"
  output' :: "pystr option"

definition api_endpoint :: string where
  "api_endpoint = ''https://app.giz.ai/api/data/users/inferenceServer.infer''"

definition headers_of :: "(string \<times> string) list" where
  "headers_of =
     [(''Accept'', ''application/json, text/plain, */*''),
      (''Accept-Language'', ''en-US,en;q=0.9''),
      (''Cache-Control'', ''no-cache''),
      (''Connection'', ''keep-alive''),
      (''Content-Type'', ''application/json''),
      (''DNT'', ''1''),
      (''Origin'', ''https://app.giz.ai''),
      (''Pragma'', ''no-cache''),
      (''Sec-Fetch-Dest'', ''empty''),
      (''Sec-Fetch-Mode'', ''cors''),
      (''Sec-Fetch-Site'', ''same-origin''),
      (''User-Agent'', ''Mozilla/5.0 (X11; Linux x86_64) AppleWebKit/537.36 (KHTML, like Gecko) Chrome/130.0.0.0 Safari/537.36''),
      (''sec-ch-ua'', [CHR 0x22] @ ''Not?A_Brand'' @ [CHR 0x22] @ '';v='' @ [CHR 0x22] @ ''99'' @ [CHR 0x22] @ '', '' @ [CHR 0x22] @ ''Chromium'' @ [CHR 0x22] @ '';v='' @ [CHR 0x22] @ ''130'' @ [CHR 0x22]),
      (''sec-ch-ua-mobile'', ''?0''),
      (''sec-ch-ua-platform'', [CHR 0x22] @ ''Linux'' @ [CHR 0x22])]"

text \<open>The \<open>data\<close> dictionary of \<open>create_async_generator\<close>.\<close>

definition data :: "pystr \<Rightarrow> json list \<Rightarrow> json" where
  "data base_model msgs =
     JObj [(lit ''model'', JStr (lit ''chat'')),
           (lit ''baseModel'', JStr base_model),
           (lit ''input'', JObj [(lit ''messages'', JArr msgs),
                                 (lit ''mode'', JStr (lit ''chat''))]),
           (lit ''noStream'', JBool True)]"

definition request_of :: "pystr \<Rightarrow> json list \<Rightarrow> pystr option \<Rightarrow> request" where
  "request_of base_model msgs via =
     \<lparr>url = api_endpoint, headers = headers_of, body = data base_model msgs, proxy = via\<rparr>"

text \<open>What the generator does with the provider's answer: it yields one item or raises.\<close>

definition on_outcome :: "outcome \<Rightarrow> exn + pystr list" where
  "on_outcome out =
     (case out of
        NoReply \<Rightarrow> Inl ClientError
      | Reply status reply \<Rightarrow>
          if status = 201 then
            (case reply of
               Unparsable \<Rightarrow> Inl JSONDecodeError
             | Parsed result \<Rightarrow>
                 (case getitem result (lit ''output'') of
                    Inl e \<Rightarrow> Inl e
                  | Inr v \<Rightarrow> (case strip_method v of Inl e \<Rightarrow> Inl e | Inr s \<Rightarrow> Inr [s])))
          else Inl (Exception (lit ''Unexpected response status: '' @ dec status)))"

definition create_async_generator ::
  "provider \<Rightarrow> pystr \<Rightarrow> json list \<Rightarrow> pystr option \<Rightarrow> exn + pystr list" where
  "create_async_generator post base_model msgs via =
     on_outcome (post (request_of base_model msgs via))"

text \<open>One element of the list comprehension: \<open>msg.role.value\<close> raises on a message
  without a role.\<close>

definition message_dict :: "Message \<Rightarrow> exn + json" where
  "message_dict msg =
     (case Message.role msg of
        None \<Rightarrow> Inl AttributeError
      | Some r \<Rightarrow>
          Inr (JObj [(lit ''type'', JStr (MessageType_value r)),
                     (lit ''content'',
                        (case Message.content msg of None \<Rightarrow> JNull | Some c \<Rightarrow> JStr c))]))"

fun comprehension :: "Message list \<Rightarrow> exn + json list" where
  "comprehension [] = Inr []"
| "comprehension (msg # rest) =
     (case message_dict msg of
        Inl e \<Rightarrow> Inl e
      | Inr d \<Rightarrow> (case comprehension rest of Inl e \<Rightarrow> Inl e | Inr ds \<Rightarrow> Inr (d # ds)))"

text \<open>\<open>ResponseMessage(content=..., role=...)\<close>: the validator, then the declared type.\<close>

definition ResponseMessage_init :: "pystr option \<Rightarrow> role_input \<Rightarrow> exn + ResponseMessage" where
  "ResponseMessage_init c r =
     (case as_MessageType (ResponseMessage_map_role r) of
        Inl e \<Rightarrow> Inl e
      | Inr m \<Rightarrow>
          Inr \<lparr>ResponseMessage.content = c, ResponseMessage.role = m,
               ResponseMessage.tool_calls = None, ResponseMessage.function_call = None\<rparr>)"

text \<open>The \<open>ChatResponse(...)\<close> expression of the handler.\<close>

definition chat_response :: "pystr \<Rightarrow> pystr \<Rightarrow> exn + ChatResponse" where
  "chat_response request_model response =
     (case ResponseMessage_init (Some response) (Member ASSISTANT) of
        Inl e \<Rightarrow> Inl e
      | Inr m \<Rightarrow>
          Inr \<lparr>id' = Some (lit ''chatcmpl-dc4f6c13-7739-4acc-8940-ec822ccb24dc''),
               choices = Some [\<lparr>finish_reason = Some (lit ''stop''), index = Some 0,
                                 message = Some m\<rparr>],
               created = Some 1735359843,
               ChatResponse.model = Some request_model,
               object = Some (lit ''chat.completion''),
               service_tier = None,
               system_fingerprint = None,
               usage = Some \<lparr>completion_tokens = Some 0, prompt_tokens = Some 0,
                              total_tokens = Some 0, completion_tokens_details = None,
                              prompt_tokens_details = None\<rparr>,
               output' = None\<rparr>)"

text \<open>The body of the \<open>try\<close> block.\<close>

definition try_block :: "provider \<Rightarrow> ChatRequest \<Rightarrow> exn + ChatResponse" where
  "try_block post request =
     (case comprehension (ChatRequest.messages request) of
        Inl e \<Rightarrow> Inl e
      | Inr msgs \<Rightarrow>
          (case create_async_generator post (ChatRequest.model request) msgs None of
             Inl e \<Rightarrow> Inl e
           | Inr items \<Rightarrow>
               (case first_item items of
                  None \<Rightarrow> Inl (HTTPException 500 (lit ''No response generated''))
                | Some response \<Rightarrow> chat_response (ChatRequest.model request) response)))"

text \<open>The response models as JSON, field by field.\<close>

definition ResponseMessage_json :: "ResponseMessage \<Rightarrow> json" where
  "ResponseMessage_json m =
     JObj [(lit ''content'', json_of_option JStr (ResponseMessage.content m)),
           (lit ''role'', JStr (MessageType_value (ResponseMessage.role m))),
           (lit ''tool_calls'', json_of_option JArr (ResponseMessage.tool_calls m)),
           (lit ''function_call'', json_of_option JObj (ResponseMessage.function_call m))]"

definition Choices_json :: "Choices \<Rightarrow> json" where
  "Choices_json c =
     JObj [(lit ''finish_reason'', json_of_option JStr (finish_reason c)),
           (lit ''index'', json_of_option JInt (index c)),
           (lit ''message'', json_of_option ResponseMessage_json (message c))]"

definition Usage_json :: "Usage \<Rightarrow> json" where
  "Usage_json u =
     JObj [(lit ''completion_tokens'', json_of_option JInt (completion_tokens u)),
           (lit ''prompt_tokens'', json_of_option JInt (prompt_tokens u)),
           (lit ''total_tokens'', json_of_option JInt (total_tokens u)),
           (lit ''completion_tokens_details'', json_of_option JArr (completion_tokens_details u)),
           (lit ''prompt_tokens_details'', json_of_option JArr (prompt_tokens_details u))]"

definition ChatResponse_json :: "ChatResponse \<Rightarrow> json" where
  "ChatResponse_json r =
     JObj [(lit ''id'', json_of_option JStr (id' r)),
           (lit ''choices'', json_of_option (\<lambda>cs. JArr (map Choices_json cs)) (choices r)),
           (lit ''created'', json_of_option JInt (created r)),
           (lit ''model'', json_of_option JStr (ChatResponse.model r)),
           (lit ''object'', json_of_option JStr (object r)),
           (lit ''service_tier'', json_of_option JStr (service_tier r)),
           (lit ''system_fingerprint'', json_of_option JStr (system_fingerprint r)),
           (lit ''usage'', json_of_option Usage_json (usage r)),
           (lit ''output'', json_of_option JStr (output' r))]"

text \<open>
  The route: \<open>except Exception as e: raise HTTPException(status_code=500, detail=str(e))\<close>
  around the body, and \<open>response_model=ChatResponse\<close> for what it returns.
\<close>

definition chat_completions :: "provider \<Rightarrow> ChatRequest \<Rightarrow> ChatResponse http_result" where
  "chat_completions post request =
     (case try_block post request of
        Inl e \<Rightarrow> HTTPError 500 (str_of e)
      | Inr r \<Rightarrow> respond ChatResponse_json r)"

section \<open>Second instance (main2.py)\<close>

datatype MessageType2 = HUMAN2 | ASSISTANT2 | SYSTEM2

fun MessageType2_value :: "MessageType2 \<Rightarrow> pystr" where
  "MessageType2_value HUMAN2 = lit ''human''"
| "MessageType2_value ASSISTANT2 = lit ''assistant''"
| "MessageType2_value SYSTEM2 = lit ''system''"

definition MessageType2_members :: "MessageType2 list" where
  "MessageType2_members = [HUMAN2, ASSISTANT2, SYSTEM2]"

definition MessageType2_of :: "pystr \<Rightarrow> MessageType2 option" where
  "MessageType2_of s = find (\<lambda>m. MessageType2_value m = s) MessageType2_members"

text \<open>The \<open>type\<close> field of \<open>Message\<close> for a value given in the request: there is no
  validator here, only the declared type \<open>MessageType\<close>.\<close>

fun Message2_type :: "json \<Rightarrow> exn + MessageType2" where
  "Message2_type (JStr s) =
     (case MessageType2_of s of None \<Rightarrow> Inl ValidationError | Some m \<Rightarrow> Inr m)"
| "Message2_type _ = Inl ValidationError"

record Message2 =
  type :: MessageType2
  content :: pystr

record ChatRequest2 =
  model :: pystr
  messages :: "Message2 list"
  mode :: pystr
  noStream :: bool

record ChatResponse2 =
  output' :: pystr

definition api_endpoint2 :: string where
  "api_endpoint2 = ''https://app.giz.ai/api/data/users/inferenceServer.infer''"

definition headers_of2 :: "(string \<times> string) list" where
  "headers_of2 =
     [(''Accept'', ''application/json, text/plain, */*''),
      (''Accept-Language'', ''en-US,en;q=0.9''),
      (''Cache-Control'', ''no-cache''),
      (''Connection'', ''keep-alive''),
      (''Content-Type'', ''application/json''),
      (''DNT'', ''1''),
      (''Origin'', ''https://app.giz.ai''),
      (''Pragma'', ''no-cache''),
      (''Sec-Fetch-Dest'', ''empty''),
      (''Sec-Fetch-Mode'', ''cors''),
      (''Sec-Fetch-Site'', ''same-origin''),
      (''User-Agent'', ''Mozilla/5.0 (X11; Linux x86_64) AppleWebKit/537.36 (KHTML, like Gecko) Chrome/130.0.0.0 Safari/537.36''),
      (''sec-ch-ua'', [CHR 0x22] @ ''Not?A_Brand'' @ [CHR 0x22] @ '';v='' @ [CHR 0x22] @ ''99'' @ [CHR 0x22] @ '', '' @ [CHR 0x22] @ ''Chromium'' @ [CHR 0x22] @ '';v='' @ [CHR 0x22] @ ''130'' @ [CHR 0x22]),
      (''sec-ch-ua-mobile'', ''?0''),
      (''sec-ch-ua-platform'', [CHR 0x22] @ ''Linux'' @ [CHR 0x22])]"

definition data2 :: "pystr \<Rightarrow> json list \<Rightarrow> json" where
  "data2 base_model msgs =
     JObj [(lit ''model'', JStr (lit ''chat'')),
           (lit ''baseModel'', JStr base_model),
           (lit ''input'', JObj [(lit ''messages'', JArr msgs),
                                 (lit ''mode'', JStr (lit ''chat''))]),
           (lit ''noStream'', JBool True)]"

definition request_of2 :: "pystr \<Rightarrow> json list \<Rightarrow> pystr option \<Rightarrow> request" where
  "request_of2 base_model msgs via =
     \<lparr>url = api_endpoint2, headers = headers_of2, body = data2 base_model msgs, proxy = via\<rparr>"

definition on_outcome2 :: "outcome \<Rightarrow> exn + pystr list" where
  "on_outcome2 out =
     (case out of
        NoReply \<Rightarrow> Inl ClientError
      | Reply status reply \<Rightarrow>
          if status = 201 then
            (case reply of
               Unparsable \<Rightarrow> Inl JSONDecodeError
             | Parsed result \<Rightarrow>
                 (case getitem result (lit ''output'') of
                    Inl e \<Rightarrow> Inl e
                  | Inr v \<Rightarrow> (case strip_method v of Inl e \<Rightarrow> Inl e | Inr s \<Rightarrow> Inr [s])))
          else Inl (Exception (lit ''Unexpected response status: '' @ dec status)))"

definition create_async_generator2 ::
  "provider \<Rightarrow> pystr \<Rightarrow> json list \<Rightarrow> pystr option \<Rightarrow> exn + pystr list" where
  "create_async_generator2 post base_model msgs via =
     on_outcome2 (post (request_of2 base_model msgs via))"

text \<open>One element of the list comprehension. \<open>msg.type\<close> is a member of a \<open>str\<close>
  enumeration; in the JSON body it is its value.\<close>

definition message_dict2 :: "Message2 \<Rightarrow> json" where
  "message_dict2 msg =
     JObj [(lit ''type'', JStr (MessageType2_value (type msg))),
           (lit ''content'', JStr (Message2.content msg))]"

definition comprehension2 :: "Message2 list \<Rightarrow> json list" where
  "comprehension2 msgs = map message_dict2 msgs"

definition try_block2 :: "provider \<Rightarrow> ChatRequest2 \<Rightarrow> exn + ChatResponse2" where
  "try_block2 post request =
     (case create_async_generator2 post (ChatRequest2.model request)
             (comprehension2 (ChatRequest2.messages request)) None of
        Inl e \<Rightarrow> Inl e
      | Inr items \<Rightarrow>
          (case first_item items of
             None \<Rightarrow> Inl (HTTPException 500 (lit ''No response generated''))
           | Some response \<Rightarrow> Inr \<lparr>output' = response\<rparr>))"

definition ChatResponse2_json :: "ChatResponse2 \<Rightarrow> json" where
  "ChatResponse2_json r = JObj [(lit ''output'', JStr (ChatResponse2.output' r))]"

definition chat_completions2 :: "provider \<Rightarrow> ChatRequest2 \<Rightarrow> ChatResponse2 http_result" where
  "chat_completions2 post request =
     (case try_block2 post request of
        Inl e \<Rightarrow> HTTPError 500 (str_of e)
      | Inr r \<Rightarrow> respond ChatResponse2_json r)"

section \<open>The request each endpoint sends\<close>

text \<open>The argument of the one \<open>session.post\<close> a request leads to, or the exception that
  keeps the handler from reaching it.\<close>

definition outbound :: "ChatRequest \<Rightarrow> exn + request" where
  "outbound request =
     (case comprehension (ChatRequest.messages request) of
        Inl e \<Rightarrow> Inl e
      | Inr msgs \<Rightarrow> Inr (request_of (ChatRequest.model request) msgs None))"

definition outbound2 :: "ChatRequest2 \<Rightarrow> request" where
  "outbound2 request =
     request_of2 (ChatRequest2.model request) (comprehension2 (ChatRequest2.messages request)) None"


text \<open>\<open>data["input"]["messages"]\<close> of an outbound body.\<close>

definition input_messages :: "json \<Rightarrow> exn + json" where
  "input_messages d =
     (case getitem d (lit ''input'') of
        Inl e \<Rightarrow> Inl e
      | Inr i \<Rightarrow> getitem i (lit ''messages''))"

text \<open>
  The provider label that a role given in a request ends up as: the role field of
  \<open>Message\<close>, then the \<open>type\<close> entry of the dictionary built from the message.
\<close>

definition provider_label :: "json \<Rightarrow> exn + json" where
  "provider_label v =
     (case Message_role v of
        Inl e \<Rightarrow> Inl e
      | Inr r \<Rightarrow>
          (case message_dict \<lparr>Message.content = None, Message.role = r,
                              Message.tool_calls = None, Message.function_call = None\<rparr> of
             Inl e \<Rightarrow> Inl e
           | Inr d \<Rightarrow> getitem d (lit ''type'')))"

text \<open>The same for the second instance.\<close>

definition provider_label2 :: "json \<Rightarrow> exn + json" where
  "provider_label2 v =
     (case Message2_type v of
        Inl e \<Rightarrow> Inl e
      | Inr t \<Rightarrow> getitem (message_dict2 \<lparr>type = t, Message2.content = []\<rparr>) (lit ''type''))"

text \<open>The role a response message carries for a role given as a string.\<close>

definition response_label :: "json \<Rightarrow> exn + pystr" where
  "response_label v =
     (case ResponseMessage_init None (Raw v) of
        Inl e \<Rightarrow> Inl e
      | Inr m \<Rightarrow> Inr (MessageType_value (ResponseMessage.role m)))"

text \<open>Reading a decimal text back.\<close>

definition undec :: "pystr \<Rightarrow> nat" where
  "undec s = foldl (\<lambda>a c. 10 * a + (c - 48)) 0 s"

text \<open>A reply body from which \<open>result['output']\<close> can be read.\<close>

fun has_output :: "reply_body \<Rightarrow> bool" where
  "has_output (Parsed (JObj kvs)) = (lit ''output'' \<in> set (map fst kvs))"
| "has_output _ = False"

subsection \<open>Concrete requests and providers\<close>

definition system_user_messages :: "Message list" where
  "system_user_messages =
     [\<lparr>Message.content = Some (lit ''be terse''), Message.role = Some SYSTEM,
       Message.tool_calls = None, Message.function_call = None\<rparr>,
      \<lparr>Message.content = Some (lit ''hi''), Message.role = Some HUMAN,
       Message.tool_calls = None, Message.function_call = None\<rparr>]"

definition system_user_request :: ChatRequest where
  "system_user_request =
     \<lparr>ChatRequest.model = lit ''qwen-coder-32b'', ChatRequest.messages = system_user_messages,
      temperature = None\<rparr>"

definition human_request2 :: ChatRequest2 where
  "human_request2 =
     \<lparr>ChatRequest2.model = lit ''qwen-coder-32b'',
      ChatRequest2.messages = [\<lparr>type = HUMAN2, Message2.content = lit ''Are you qwen?''\<rparr>],
      mode = lit ''plan'', noStream = False\<rparr>"

definition replies :: "nat \<Rightarrow> reply_body \<Rightarrow> provider" where
  "replies status reply = (\<lambda>rq. Reply status reply)"


definition system_user_dicts :: "json list" where
  "system_user_dicts =
     [JObj [(lit ''type'', JStr (lit ''system'')), (lit ''content'', JStr (lit ''be terse''))],
      JObj [(lit ''type'', JStr (lit ''human'')), (lit ''content'', JStr (lit ''hi''))]]"


definition system_user_request2 :: ChatRequest2 where
  "system_user_request2 =
     \<lparr>ChatRequest2.model = lit ''qwen-coder-32b'',
      ChatRequest2.messages = [\<lparr>type = SYSTEM2, Message2.content = lit ''be terse''\<rparr>,
                               \<lparr>type = HUMAN2, Message2.content = lit ''hi''\<rparr>],
      mode = lit ''plan'', noStream = True\<rparr>"

definition keyless_reply :: reply_body where
  "keyless_reply = Parsed (JObj [(lit ''text'', JStr (lit ''X''))])"

section \<open>Properties of the Python values\<close>






text \<open>\<open>dec\<close> writes decimal digits, and reading them back gives the number.\<close>

lemma dec_digits: "list_all (\<lambda>c. 48 \<le> c \<and> c \<le> 57) (dec n)"
proof (induction n rule: dec.induct)
  case (1 n)
  show ?case
  proof (cases "n < 10")
    case True
    then show ?thesis by (subst dec.simps) simp
  next
    case False
    have "n mod 10 < 10" by simp
    then have "48 + n mod 10 \<le> 57" by linarith
    with False 1 show ?thesis by (subst dec.simps) simp
  qed
qed

lemma undec_dec: "undec (dec n) = n"
proof (induction n rule: dec.induct)
  case (1 n)
  show ?case
  proof (cases "n < 10")
    case True
    then show ?thesis by (subst dec.simps) (simp add: undec_def)
  next
    case False
    with 1 have "undec (dec (n div 10)) = n div 10" by simp
    with False show ?thesis by (subst dec.simps) (simp add: undec_def)
  qed
qed

section \<open>Properties of the handlers\<close>

lemma lit_simps:
  "lit [] = []"
  "lit (c # cs) = of_char c # lit cs"
  by (simp_all add: lit_def)

lemma chat_response_value:
  "chat_response m t =
     Inr \<lparr>id' = Some (lit ''chatcmpl-dc4f6c13-7739-4acc-8940-ec822ccb24dc''),
          choices = Some [\<lparr>finish_reason = Some (lit ''stop''), index = Some 0,
                            message = Some \<lparr>ResponseMessage.content = Some t,
                                             ResponseMessage.role = ASSISTANT,
                                             ResponseMessage.tool_calls = None,
                                             ResponseMessage.function_call = None\<rparr>\<rparr>],
          created = Some 1735359843,
          ChatResponse.model = Some m,
          object = Some (lit ''chat.completion''),
          service_tier = None,
          system_fingerprint = None,
          usage = Some \<lparr>completion_tokens = Some 0, prompt_tokens = Some 0,
                         total_tokens = Some 0, completion_tokens_details = None,
                         prompt_tokens_details = None\<rparr>,
          output' = None\<rparr>"
  by (simp add: chat_response_def ResponseMessage_init_def ResponseMessage_map_role_def lit_simps)


lemma chat_completions_sends:
  "outbound request = Inr rq \<Longrightarrow>
   chat_completions post request =
     (case on_outcome (post rq) of
        Inl e \<Rightarrow> HTTPError 500 (str_of e)
      | Inr items \<Rightarrow>
          (case first_item items of
             None \<Rightarrow> HTTPError 500 (str_of (HTTPException 500 (lit ''No response generated'')))
           | Some response \<Rightarrow>
               (case chat_response (ChatRequest.model request) response of
                  Inl e \<Rightarrow> HTTPError 500 (str_of e)
                | Inr r \<Rightarrow> respond ChatResponse_json r)))"
  by (auto simp: outbound_def chat_completions_def try_block_def create_async_generator_def
           split: sum.splits option.splits)

lemma chat_completions_unsent:
  "outbound request = Inl e \<Longrightarrow> chat_completions post request = HTTPError 500 (str_of e)"
  by (auto simp: outbound_def chat_completions_def try_block_def split: sum.splits)

lemma chat_completions2_sends:
  "chat_completions2 post request =
     (case on_outcome2 (post (outbound2 request)) of
        Inl e \<Rightarrow> HTTPError 500 (str_of e)
      | Inr items \<Rightarrow>
          (case first_item items of
             None \<Rightarrow> HTTPError 500 (str_of (HTTPException 500 (lit ''No response generated'')))
           | Some response \<Rightarrow> respond ChatResponse2_json \<lparr>output' = response\<rparr>))"
  by (auto simp: outbound2_def chat_completions2_def try_block2_def create_async_generator2_def
           split: sum.splits option.splits)








text \<open>A request reaches the provider exactly when each of its messages has a role.\<close>

lemma comprehension_total:
  "(\<exists>out. comprehension msgs = Inr out) = list_all (\<lambda>msg. Message.role msg \<noteq> None) msgs"
  by (induction msgs) (auto simp: message_dict_def split: sum.splits option.splits)

lemma outbound_total:
  "(\<exists>rq. outbound request = Inr rq)
     = list_all (\<lambda>msg. Message.role msg \<noteq> None) (ChatRequest.messages request)"
proof -
  have "(\<exists>rq. outbound request = Inr rq)
      = (\<exists>out. comprehension (ChatRequest.messages request) = Inr out)"
    by (auto simp: outbound_def split: sum.splits)
  then show ?thesis by (simp add: comprehension_total)
qed



lemma comprehension_Inr:
  "comprehension msgs = Inr out \<Longrightarrow> map message_dict msgs = map Inr out"
  by (induction msgs arbitrary: out) (auto split: sum.splits)

lemma comprehension_length:
  "comprehension msgs = Inr out \<Longrightarrow> length out = length msgs"
  by (drule comprehension_Inr) (metis length_map)

lemma outbound_example:
  "outbound system_user_request =
     Inr (request_of (lit ''qwen-coder-32b'') system_user_dicts None)"
  by (simp add: outbound_def system_user_request_def system_user_messages_def
        system_user_dicts_def message_dict_def)


lemma on_outcome_bad_status:
  "status \<noteq> 201 \<Longrightarrow>
   on_outcome (Reply status reply) = Inl (Exception (lit ''Unexpected response status: '' @ dec status))"
  by (simp add: on_outcome_def)

lemma on_outcome2_bad_status:
  "status \<noteq> 201 \<Longrightarrow>
   on_outcome2 (Reply status reply) = Inl (Exception (lit ''Unexpected response status: '' @ dec status))"
  by (simp add: on_outcome2_def)

lemma dec_403: "dec 403 = lit ''403''"
  by (simp add: dec.simps lit_simps)

lemma MessageType_of_None:
  "s \<notin> {lit ''human'', lit ''ai'', lit ''system'', lit ''assistant''} \<Longrightarrow> MessageType_of s = None"
  by (auto simp: MessageType_of_def MessageType_members_def)

lemma MessageType2_of_None:
  "s \<notin> {lit ''human'', lit ''assistant'', lit ''system''} \<Longrightarrow> MessageType2_of s = None"
  by (auto simp: MessageType2_of_def MessageType2_members_def)

lemma input_messages_data: "input_messages (data m msgs) = Inr (JArr msgs)"
  by (simp add: input_messages_def data_def lit_simps)

lemma input_messages_data2: "input_messages (data2 m msgs) = Inr (JArr msgs)"
  by (simp add: input_messages_def data2_def lit_simps)

lemma comprehension_example: "comprehension system_user_messages = Inr system_user_dicts"
  by (simp add: system_user_messages_def system_user_dicts_def message_dict_def)

lemma getitem_missing:
  assumes "k \<notin> set (map fst kvs)"
  shows "getitem (JObj kvs) k = Inl (KeyError k)"
proof -
  from assms have "map_of (rev kvs) k = None"
    by (simp add: map_of_eq_None_iff)
  then show ?thesis by simp
qed

lemma on_outcome_no_output:
  "\<not> has_output reply \<Longrightarrow>
   on_outcome (Reply 201 reply) \<in> {Inl JSONDecodeError, Inl (KeyError (lit ''output'')), Inl TypeError}"
proof (cases reply)
  case Unparsable
  then show ?thesis by (simp add: on_outcome_def)
next
  case (Parsed j)
  assume "\<not> has_output reply"
  with Parsed show ?thesis
    by (cases j) (simp_all add: on_outcome_def getitem_missing del: getitem.simps(1))
qed

lemma on_outcome2_eq: "on_outcome2 = on_outcome"
  by (rule ext) (simp add: on_outcome2_def on_outcome_def)

lemma headers_of2_eq: "headers_of2 = headers_of"
  by (simp only: headers_of2_def headers_of_def)

lemma api_endpoint2_eq: "api_endpoint2 = api_endpoint"
  by (simp only: api_endpoint2_def api_endpoint_def)

lemma data2_eq: "data2 m msgs = data m msgs"
  by (simp only: data2_def data_def)

text \<open>Each entry the list comprehension of the first instance builds.\<close>

lemma comprehension_entries:
  "comprehension msgs = Inr out \<Longrightarrow>
   out = map (\<lambda>msg. JObj [(lit ''type'', JStr (MessageType_value (the (Message.role msg)))),
                          (lit ''content'',
                             (case Message.content msg of None \<Rightarrow> JNull | Some c \<Rightarrow> JStr c))])
             msgs"
  by (induction msgs arbitrary: out)
    (auto simp: message_dict_def split: sum.splits option.splits)

section \<open>The claims of the specification\<close>




text \<open>
  Claim C2. The body of every request an endpoint sends has \<open>model\<close> equal to the
  literal \<open>chat\<close>, \<open>baseModel\<close> equal to the model of the inbound request and \<open>noStream\<close>
  equal to \<open>True\<close>, whatever \<open>temperature\<close>, \<open>mode\<close> and \<open>noStream\<close> the inbound request
  carries.
\<close>

theorem outbound_body_fixed_fields:
  "(outbound request = Inr rq \<longrightarrow>
      getitem (body rq) (lit ''model'') = Inr (JStr (lit ''chat'')) \<and>
      getitem (body rq) (lit ''baseModel'') = Inr (JStr (ChatRequest.model request)) \<and>
      getitem (body rq) (lit ''noStream'') = Inr (JBool True))
   \<and> getitem (body (outbound2 request2)) (lit ''model'') = Inr (JStr (lit ''chat''))
   \<and> getitem (body (outbound2 request2)) (lit ''baseModel'') = Inr (JStr (ChatRequest2.model request2))
   \<and> getitem (body (outbound2 request2)) (lit ''noStream'') = Inr (JBool True)"
  by (auto simp: outbound_def outbound2_def request_of_def request_of2_def data_def data2_def
        lit_simps split: sum.splits)

text \<open>
  C2 at the system and user request for model \<open>qwen-coder-32b\<close>, and at a request of the
  second instance with \<open>noStream = False\<close>.
\<close>

theorem outbound_body_fixed_fields_witness:
  "outbound system_user_request = Inr (request_of (lit ''qwen-coder-32b'') system_user_dicts None)
   \<and> getitem (body (request_of (lit ''qwen-coder-32b'') system_user_dicts None)) (lit ''model'')
       = Inr (JStr (lit ''chat''))
   \<and> getitem (body (request_of (lit ''qwen-coder-32b'') system_user_dicts None)) (lit ''baseModel'')
       = Inr (JStr (lit ''qwen-coder-32b''))
   \<and> getitem (body (request_of (lit ''qwen-coder-32b'') system_user_dicts None)) (lit ''noStream'')
       = Inr (JBool True)
   \<and> getitem (body (outbound2 human_request2)) (lit ''baseModel'') = Inr (JStr (lit ''qwen-coder-32b''))
   \<and> getitem (body (outbound2 human_request2)) (lit ''noStream'') = Inr (JBool True)"
  using outbound_body_fixed_fields [of system_user_request "request_of (lit ''qwen-coder-32b'') system_user_dicts None"
               human_request2]
    outbound_example
  by (simp add: system_user_request_def human_request2_def)

text \<open>
  Claim C3. A reply with a status other than 201 makes the generator raise
  \<open>Exception("Unexpected response status: <status>")\<close>, with the status in decimal, and
  the endpoint answer 500 with that message as its detail. The decimal text determines
  the status.
\<close>

theorem bad_status_gives_500_with_code:
  "(post (request_of m msgs via) = Reply status reply \<and> status \<noteq> 201 \<longrightarrow>
      create_async_generator post m msgs via
        = Inl (Exception (lit ''Unexpected response status: '' @ dec status)))
   \<and> (outbound request = Inr rq \<and> post rq = Reply status reply \<and> status \<noteq> 201 \<longrightarrow>
      chat_completions post request
        = HTTPError 500 (Text (lit ''Unexpected response status: '' @ dec status)))
   \<and> (post (request_of2 m msgs via) = Reply status reply \<and> status \<noteq> 201 \<longrightarrow>
      create_async_generator2 post m msgs via
        = Inl (Exception (lit ''Unexpected response status: '' @ dec status)))
   \<and> (post (outbound2 request2) = Reply status reply \<and> status \<noteq> 201 \<longrightarrow>
      chat_completions2 post request2
        = HTTPError 500 (Text (lit ''Unexpected response status: '' @ dec status)))
   \<and> undec (dec status) = status"
  by (simp add: chat_completions_sends chat_completions2_sends on_outcome_bad_status
        on_outcome2_bad_status undec_dec create_async_generator_def create_async_generator2_def)

text \<open>
  C3 at a provider that answers 403: the detail is
  \<open>Unexpected response status: 403\<close>.
\<close>

theorem bad_status_gives_500_with_code_witness:
  "outbound system_user_request = Inr (request_of (lit ''qwen-coder-32b'') system_user_dicts None)
   \<and> replies 403 Unparsable (request_of (lit ''qwen-coder-32b'') system_user_dicts None)
       = Reply 403 Unparsable
   \<and> replies 403 Unparsable (request_of2 (lit ''qwen-coder-32b'') system_user_dicts None)
       = Reply 403 Unparsable
   \<and> replies 403 Unparsable (outbound2 human_request2) = Reply 403 Unparsable
   \<and> (403 :: nat) \<noteq> 201
   \<and> create_async_generator (replies 403 Unparsable) (lit ''qwen-coder-32b'') system_user_dicts None
       = Inl (Exception (lit ''Unexpected response status: '' @ lit ''403''))
   \<and> chat_completions (replies 403 Unparsable) system_user_request
       = HTTPError 500 (Text (lit ''Unexpected response status: '' @ lit ''403''))
   \<and> create_async_generator2 (replies 403 Unparsable) (lit ''qwen-coder-32b'') system_user_dicts None
       = Inl (Exception (lit ''Unexpected response status: '' @ lit ''403''))
   \<and> chat_completions2 (replies 403 Unparsable) human_request2
       = HTTPError 500 (Text (lit ''Unexpected response status: '' @ lit ''403''))"
  using bad_status_gives_500_with_code [of "replies 403 Unparsable" "lit ''qwen-coder-32b''" system_user_dicts None 403
               Unparsable system_user_request
               "request_of (lit ''qwen-coder-32b'') system_user_dicts None" human_request2]
  by (simp add: replies_def dec_403 outbound_example)

text \<open>
  Claim C4 as stated fails. The role \<open>tool\<close> is no label and no alias; the role field of
  the first instance and the type field of the second both reject it, so it is not the
  role of any outbound message.
\<close>

theorem unrecognized_role_not_forwarded:
  "Message_role (JStr (lit ''tool'')) = Inl ValidationError
   \<and> provider_label (JStr (lit ''tool'')) \<noteq> Inr (JStr (lit ''tool''))
   \<and> provider_label2 (JStr (lit ''tool'')) \<noteq> Inr (JStr (lit ''tool''))"
  by (simp add: provider_label_def provider_label2_def Message_role_def Message_map_role_def
        MessageType_of_def MessageType_members_def MessageType2_of_def MessageType2_members_def
        lit_simps)

text \<open>
  Claim C4, amended. For a role string that is no recognized label or alias,
  \<open>map_role\<close> returns the string unchanged and raises nothing, and the declared
  enumeration type of the field then rejects it with a validation error: no outbound body
  is built for it. The second instance has no validator, and the declared type of its
  \<open>type\<close> field rejects the string in the same way.
\<close>

theorem unrecognized_role_rejected:
  "(s \<notin> {lit ''user'', lit ''assistant'', lit ''human'', lit ''ai'', lit ''system''} \<longrightarrow>
      Message_map_role (Raw (JStr s)) = Raw (JStr s) \<and>
      Message_role (JStr s) = Inl ValidationError \<and>
      provider_label (JStr s) = Inl ValidationError)
   \<and> (s \<notin> {lit ''human'', lit ''assistant'', lit ''system''} \<longrightarrow>
      Message2_type (JStr s) = Inl ValidationError \<and>
      provider_label2 (JStr s) = Inl ValidationError)"
  by (simp add: provider_label_def provider_label2_def Message_role_def Message_map_role_def
        MessageType_of_None MessageType2_of_None)

text \<open>
  C4 at the role \<open>tool\<close>.
\<close>

theorem unrecognized_role_rejected_witness:
  "lit ''tool'' \<notin> {lit ''user'', lit ''assistant'', lit ''human'', lit ''ai'', lit ''system''}
   \<and> lit ''tool'' \<notin> {lit ''human'', lit ''assistant'', lit ''system''}
   \<and> Message_map_role (Raw (JStr (lit ''tool''))) = Raw (JStr (lit ''tool''))
   \<and> Message_role (JStr (lit ''tool'')) = Inl ValidationError
   \<and> provider_label (JStr (lit ''tool'')) = Inl ValidationError
   \<and> Message2_type (JStr (lit ''tool'')) = Inl ValidationError
   \<and> provider_label2 (JStr (lit ''tool'')) = Inl ValidationError"
  using unrecognized_role_rejected [of "lit ''tool''"]
  by (simp add: lit_simps)

text \<open>
  Claim C5 as stated fails. In the outbound body the role \<open>assistant\<close> becomes \<open>ai\<close>, not
  \<open>assistant\<close>, while a response message maps \<open>assistant\<close> to \<open>assistant\<close>.
\<close>

theorem assistant_alias_maps_to_ai:
  "provider_label (JStr (lit ''assistant'')) \<noteq> Inr (JStr (lit ''assistant''))
   \<and> provider_label (JStr (lit ''assistant'')) = Inr (JStr (lit ''ai''))
   \<and> response_label (JStr (lit ''assistant'')) = Inr (lit ''assistant'')"
  by (simp add: provider_label_def response_label_def Message_role_def Message_map_role_def
        message_dict_def ResponseMessage_init_def ResponseMessage_map_role_def lit_simps)

text \<open>
  Claim C5, amended. \<open>user\<close> becomes \<open>human\<close> and \<open>system\<close> stays \<open>system\<close> both in the
  outbound body and in a response message; \<open>assistant\<close> becomes \<open>ai\<close> in the outbound body
  and stays \<open>assistant\<close> in a response message.
\<close>

theorem role_aliases_in_request_and_response:
  "provider_label (JStr (lit ''user'')) = Inr (JStr (lit ''human''))
   \<and> response_label (JStr (lit ''user'')) = Inr (lit ''human'')
   \<and> provider_label (JStr (lit ''system'')) = Inr (JStr (lit ''system''))
   \<and> response_label (JStr (lit ''system'')) = Inr (lit ''system'')
   \<and> provider_label (JStr (lit ''assistant'')) = Inr (JStr (lit ''ai''))
   \<and> response_label (JStr (lit ''assistant'')) = Inr (lit ''assistant'')"
  by (simp add: provider_label_def response_label_def Message_role_def Message_map_role_def
        message_dict_def ResponseMessage_init_def ResponseMessage_map_role_def
        MessageType_of_def MessageType_members_def lit_simps)

text \<open>
  Claim C6. The \<open>input.messages\<close> list of an outbound body has one entry for each
  inbound message, in the same order, and entry \<open>i\<close> is the dictionary with the \<open>type\<close> and
  the \<open>content\<close> of inbound message \<open>i\<close>: in the first instance the value of its role and
  its content (\<open>null\<close> without one), in the second the value of its type and its content.
  In particular the roles \<open>system\<close> and \<open>user\<close> are read as \<open>SYSTEM\<close> and \<open>HUMAN\<close>, and the two
  messages give two entries with types \<open>system\<close> and \<open>human\<close> in that order; in the second
  instance, which has no alias, the types \<open>system\<close> and \<open>human\<close> do.
\<close>

theorem outbound_messages_keep_order_and_count:
  "(outbound request = Inr rq \<longrightarrow>
      (\<exists>out. input_messages (body rq) = Inr (JArr out) \<and>
             length out = length (ChatRequest.messages request) \<and>
             map Inr out = map message_dict (ChatRequest.messages request) \<and>
             out = map (\<lambda>msg. JObj [(lit ''type'', JStr (MessageType_value (the (Message.role msg)))),
                                    (lit ''content'',
                                       (case Message.content msg of
                                          None \<Rightarrow> JNull | Some c \<Rightarrow> JStr c))])
                       (ChatRequest.messages request)))
   \<and> input_messages (body (outbound2 request2))
       = Inr (JArr (map (\<lambda>msg. JObj [(lit ''type'', JStr (MessageType2_value (type msg))),
                                      (lit ''content'', JStr (Message2.content msg))])
                         (ChatRequest2.messages request2)))
   \<and> Message_role (JStr (lit ''system'')) = Inr (Some SYSTEM)
   \<and> Message_role (JStr (lit ''user'')) = Inr (Some HUMAN)
   \<and> comprehension
        [\<lparr>Message.content = Some (lit ''be terse''), Message.role = Some SYSTEM,
          Message.tool_calls = None, Message.function_call = None\<rparr>,
         \<lparr>Message.content = Some (lit ''hi''), Message.role = Some HUMAN,
          Message.tool_calls = None, Message.function_call = None\<rparr>]
       = Inr [JObj [(lit ''type'', JStr (lit ''system'')), (lit ''content'', JStr (lit ''be terse''))],
              JObj [(lit ''type'', JStr (lit ''human'')), (lit ''content'', JStr (lit ''hi''))]]
   \<and> Message2_type (JStr (lit ''system'')) = Inr SYSTEM2
   \<and> Message2_type (JStr (lit ''human'')) = Inr HUMAN2
   \<and> comprehension2
        [\<lparr>type = SYSTEM2, Message2.content = lit ''be terse''\<rparr>,
         \<lparr>type = HUMAN2, Message2.content = lit ''hi''\<rparr>]
       = [JObj [(lit ''type'', JStr (lit ''system'')), (lit ''content'', JStr (lit ''be terse''))],
          JObj [(lit ''type'', JStr (lit ''human'')), (lit ''content'', JStr (lit ''hi''))]]
   \<and> input_messages (body (outbound2 system_user_request2))
       = Inr (JArr [JObj [(lit ''type'', JStr (lit ''system'')),
                          (lit ''content'', JStr (lit ''be terse''))],
                    JObj [(lit ''type'', JStr (lit ''human'')),
                          (lit ''content'', JStr (lit ''hi''))]])"
proof (intro conjI impI)
  assume a: "outbound request = Inr rq"
  then obtain out where out: "comprehension (ChatRequest.messages request) = Inr out"
    and rq: "rq = request_of (ChatRequest.model request) out None"
    by (auto simp: outbound_def split: sum.splits)
  from rq have "input_messages (body rq) = Inr (JArr out)"
    by (simp add: request_of_def input_messages_data)
  with out show "\<exists>out. input_messages (body rq) = Inr (JArr out) \<and>
             length out = length (ChatRequest.messages request) \<and>
             map Inr out = map message_dict (ChatRequest.messages request) \<and>
             out = map (\<lambda>msg. JObj [(lit ''type'', JStr (MessageType_value (the (Message.role msg)))),
                                    (lit ''content'',
                                       (case Message.content msg of
                                          None \<Rightarrow> JNull | Some c \<Rightarrow> JStr c))])
                       (ChatRequest.messages request)"
    using comprehension_entries [OF out]
    by (auto simp: comprehension_length comprehension_Inr)
next
  show "input_messages (body (outbound2 request2))
       = Inr (JArr (map (\<lambda>msg. JObj [(lit ''type'', JStr (MessageType2_value (type msg))),
                                      (lit ''content'', JStr (Message2.content msg))])
                         (ChatRequest2.messages request2)))"
    by (simp add: outbound2_def request_of2_def input_messages_data2 comprehension2_def
          message_dict2_def)
next
  show "Message_role (JStr (lit ''system'')) = Inr (Some SYSTEM)"
    by (simp add: Message_role_def Message_map_role_def MessageType_of_def
          MessageType_members_def lit_simps)
next
  show "Message_role (JStr (lit ''user'')) = Inr (Some HUMAN)"
    by (simp add: Message_role_def Message_map_role_def)
next
  show "comprehension
        [\<lparr>Message.content = Some (lit ''be terse''), Message.role = Some SYSTEM,
          Message.tool_calls = None, Message.function_call = None\<rparr>,
         \<lparr>Message.content = Some (lit ''hi''), Message.role = Some HUMAN,
          Message.tool_calls = None, Message.function_call = None\<rparr>]
       = Inr [JObj [(lit ''type'', JStr (lit ''system'')), (lit ''content'', JStr (lit ''be terse''))],
              JObj [(lit ''type'', JStr (lit ''human'')), (lit ''content'', JStr (lit ''hi''))]]"
    by (simp add: message_dict_def)
next
  show "Message2_type (JStr (lit ''system'')) = Inr SYSTEM2"
    by (simp add: MessageType2_of_def MessageType2_members_def lit_simps)
next
  show "Message2_type (JStr (lit ''human'')) = Inr HUMAN2"
    by (simp add: MessageType2_of_def MessageType2_members_def)
next
  show "comprehension2
        [\<lparr>type = SYSTEM2, Message2.content = lit ''be terse''\<rparr>,
         \<lparr>type = HUMAN2, Message2.content = lit ''hi''\<rparr>]
       = [JObj [(lit ''type'', JStr (lit ''system'')), (lit ''content'', JStr (lit ''be terse''))],
          JObj [(lit ''type'', JStr (lit ''human'')), (lit ''content'', JStr (lit ''hi''))]]"
    by (simp add: comprehension2_def message_dict2_def)
next
  show "input_messages (body (outbound2 system_user_request2))
       = Inr (JArr [JObj [(lit ''type'', JStr (lit ''system'')),
                          (lit ''content'', JStr (lit ''be terse''))],
                    JObj [(lit ''type'', JStr (lit ''human'')),
                          (lit ''content'', JStr (lit ''hi''))]])"
    by (simp add: outbound2_def request_of2_def input_messages_data2 comprehension2_def
          message_dict2_def system_user_request2_def)
qed

text \<open>
  C6 at the system and user request: two outbound entries, one for each message, with
  the types \<open>system\<close> and \<open>human\<close> and the contents of the two messages in that order.
\<close>

theorem outbound_messages_keep_order_and_count_witness:
  "outbound system_user_request = Inr (request_of (lit ''qwen-coder-32b'') system_user_dicts None)
   \<and> (\<exists>out. input_messages (body (request_of (lit ''qwen-coder-32b'') system_user_dicts None))
               = Inr (JArr out) \<and>
             length out = 2 \<and>
             map Inr out = map message_dict system_user_messages \<and>
             out = [JObj [(lit ''type'', JStr (lit ''system'')),
                          (lit ''content'', JStr (lit ''be terse''))],
                    JObj [(lit ''type'', JStr (lit ''human'')),
                          (lit ''content'', JStr (lit ''hi''))]])"
proof -
  have sent: "outbound system_user_request
      = Inr (request_of (lit ''qwen-coder-32b'') system_user_dicts None)"
    by (rule outbound_example)
  with outbound_messages_keep_order_and_count
    [of system_user_request "request_of (lit ''qwen-coder-32b'') system_user_dicts None"]
  have "\<exists>out. input_messages (body (request_of (lit ''qwen-coder-32b'') system_user_dicts None))
               = Inr (JArr out) \<and>
             length out = length (ChatRequest.messages system_user_request) \<and>
             map Inr out = map message_dict (ChatRequest.messages system_user_request) \<and>
             out = map (\<lambda>msg. JObj [(lit ''type'', JStr (MessageType_value (the (Message.role msg)))),
                                    (lit ''content'',
                                       (case Message.content msg of
                                          None \<Rightarrow> JNull | Some c \<Rightarrow> JStr c))])
                       (ChatRequest.messages system_user_request)"
    by blast
  with sent show ?thesis
    by (auto simp: system_user_request_def system_user_messages_def)
qed

text \<open>
  Claim C7. On status 201, a body that is no JSON makes the generator raise the
  decoding error, and a JSON object without \<open>output\<close> makes it raise \<open>KeyError('output')\<close>.
  For every 201 reply from which \<open>output\<close> cannot be read, both endpoints answer 500.
\<close>

theorem missing_output_gives_500:
  "(post_u (request_of m msgs via) = Reply 201 Unparsable \<longrightarrow>
      create_async_generator post_u m msgs via = Inl JSONDecodeError)
   \<and> (post_k (request_of m msgs via) = Reply 201 (Parsed (JObj kvs)) \<and>
       lit ''output'' \<notin> set (map fst kvs) \<longrightarrow>
      create_async_generator post_k m msgs via = Inl (KeyError (lit ''output'')))
   \<and> (outbound request = Inr rq \<and> post rq = Reply 201 reply \<and> \<not> has_output reply \<longrightarrow>
      (\<exists>e. e \<in> {JSONDecodeError, KeyError (lit ''output''), TypeError} \<and>
           on_outcome (post rq) = Inl e \<and>
           chat_completions post request = HTTPError 500 (MessageOf e)))
   \<and> (post (outbound2 request2) = Reply 201 reply \<and> \<not> has_output reply \<longrightarrow>
      (\<exists>e. e \<in> {JSONDecodeError, KeyError (lit ''output''), TypeError} \<and>
           on_outcome2 (post (outbound2 request2)) = Inl e \<and>
           chat_completions2 post request2 = HTTPError 500 (MessageOf e)))"
proof (intro conjI impI)
  assume "post_u (request_of m msgs via) = Reply 201 Unparsable"
  then show "create_async_generator post_u m msgs via = Inl JSONDecodeError"
    by (simp add: create_async_generator_def on_outcome_def)
next
  assume "post_k (request_of m msgs via) = Reply 201 (Parsed (JObj kvs)) \<and>
       lit ''output'' \<notin> set (map fst kvs)"
  then show "create_async_generator post_k m msgs via = Inl (KeyError (lit ''output''))"
    by (simp add: create_async_generator_def on_outcome_def getitem_missing
          del: getitem.simps(1))
next
  assume a: "outbound request = Inr rq \<and> post rq = Reply 201 reply \<and> \<not> has_output reply"
  then have "on_outcome (post rq) \<in>
      {Inl JSONDecodeError, Inl (KeyError (lit ''output'')), Inl TypeError}"
    using on_outcome_no_output [of reply] by simp
  with a show "\<exists>e. e \<in> {JSONDecodeError, KeyError (lit ''output''), TypeError} \<and>
           on_outcome (post rq) = Inl e \<and>
           chat_completions post request = HTTPError 500 (MessageOf e)"
    by (auto simp: chat_completions_sends)
next
  assume a: "post (outbound2 request2) = Reply 201 reply \<and> \<not> has_output reply"
  then have "on_outcome2 (post (outbound2 request2)) \<in>
      {Inl JSONDecodeError, Inl (KeyError (lit ''output'')), Inl TypeError}"
    using on_outcome_no_output [of reply] by (simp add: on_outcome2_eq)
  then show "\<exists>e. e \<in> {JSONDecodeError, KeyError (lit ''output''), TypeError} \<and>
           on_outcome2 (post (outbound2 request2)) = Inl e \<and>
           chat_completions2 post request2 = HTTPError 500 (MessageOf e)"
    by (auto simp: chat_completions2_sends)
qed

text \<open>
  C7 at a provider that answers 201 with no JSON, and at one that answers 201 with
  \<open>{"text": "X"}\<close>.
\<close>

theorem missing_output_gives_500_witness:
  "replies 201 Unparsable (request_of (lit ''qwen-coder-32b'') system_user_dicts None)
     = Reply 201 Unparsable
   \<and> replies 201 keyless_reply (request_of (lit ''qwen-coder-32b'') system_user_dicts None)
       = Reply 201 (Parsed (JObj [(lit ''text'', JStr (lit ''X''))]))
   \<and> lit ''output'' \<notin> set (map fst [(lit ''text'', JStr (lit ''X''))])
   \<and> outbound system_user_request = Inr (request_of (lit ''qwen-coder-32b'') system_user_dicts None)
   \<and> \<not> has_output keyless_reply
   \<and> create_async_generator (replies 201 Unparsable) (lit ''qwen-coder-32b'') system_user_dicts None
       = Inl JSONDecodeError
   \<and> create_async_generator (replies 201 keyless_reply) (lit ''qwen-coder-32b'') system_user_dicts None
       = Inl (KeyError (lit ''output''))
   \<and> (\<exists>e. chat_completions (replies 201 keyless_reply) system_user_request
             = HTTPError 500 (MessageOf e))
   \<and> (\<exists>e. chat_completions2 (replies 201 keyless_reply) human_request2
             = HTTPError 500 (MessageOf e))"
  using missing_output_gives_500 [of "replies 201 Unparsable" "lit ''qwen-coder-32b''" system_user_dicts None
               "replies 201 keyless_reply" "[(lit ''text'', JStr (lit ''X''))]"
               system_user_request "request_of (lit ''qwen-coder-32b'') system_user_dicts None"
               "replies 201 keyless_reply" keyless_reply human_request2]
  by (auto simp: replies_def keyless_reply_def outbound_example lit_simps)

text \<open>
  Claim C8. Building the response of the first instance never raises. The response has
  exactly one choice; its message has the role \<open>assistant\<close> and the text as content; the
  finish reason is \<open>stop\<close> and the index 0; the id and the creation time are the two
  constants of the source; the three usage counters are 0.
\<close>

theorem openai_envelope_shape:
  "\<exists>r c msg u.
     chat_response m t = Inr r \<and>
     choices r = Some [c] \<and>
     message c = Some msg \<and>
     ResponseMessage.role msg = ASSISTANT \<and>
     MessageType_value (ResponseMessage.role msg) = lit ''assistant'' \<and>
     ResponseMessage.content msg = Some t \<and>
     finish_reason c = Some (lit ''stop'') \<and>
     index c = Some 0 \<and>
     id' r = Some (lit ''chatcmpl-dc4f6c13-7739-4acc-8940-ec822ccb24dc'') \<and>
     created r = Some 1735359843 \<and>
     usage r = Some u \<and>
     completion_tokens u = Some 0 \<and>
     prompt_tokens u = Some 0 \<and>
     total_tokens u = Some 0"
  by (simp add: chat_response_value)

text \<open>
  Claim C9. For the same model identifier, translated messages and proxy, the generators
  of the two instances post the same request (URL, headers and body) and handle every
  outcome of the provider alike.
\<close>

theorem instances_share_provider_client:
  "url (request_of2 m msgs via) = url (request_of m msgs via)
   \<and> headers (request_of2 m msgs via) = headers (request_of m msgs via)
   \<and> body (request_of2 m msgs via) = body (request_of m msgs via)
   \<and> request_of2 m msgs via = request_of m msgs via
   \<and> create_async_generator2 post m msgs via = create_async_generator post m msgs via"
  by (simp add: request_of2_def request_of_def api_endpoint2_eq headers_of2_eq data2_eq
        create_async_generator2_def create_async_generator_def on_outcome2_eq)

text \<open>
  Claim C10. The request an endpoint sends is a function of the model and the messages
  of the inbound request: \<open>temperature\<close> in the first instance, \<open>mode\<close> and \<open>noStream\<close> in the
  second have no influence on it.
\<close>

theorem outbound_ignores_request_flags:
  "outbound \<lparr>ChatRequest.model = m, ChatRequest.messages = ms, temperature = t\<rparr>
     = outbound \<lparr>ChatRequest.model = m, ChatRequest.messages = ms, temperature = t'\<rparr>
   \<and> outbound (request\<lparr>temperature := t\<rparr>) = outbound request
   \<and> outbound2 \<lparr>ChatRequest2.model = m, ChatRequest2.messages = ms2, mode = md, noStream = ns\<rparr>
     = outbound2 \<lparr>ChatRequest2.model = m, ChatRequest2.messages = ms2, mode = md', noStream = ns'\<rparr>
   \<and> outbound2 (request2\<lparr>mode := md, noStream := ns\<rparr>) = outbound2 request2"
  by (simp add: outbound_def outbound2_def split: sum.splits)

end
